theory Spec2Isabelle
  imports Complex_Main
begin

section \<open>Python values, exceptions and built-ins used by pmix\<close>

text \<open>
  A Python float is a finite binary fraction, an infinity or a NaN.  Every finite float is
  a rational number, and the two operations the program applies to floats, \<open>int(x)\<close> and
  the comparison of an int with a float, are exact on it; so a finite float is modelled by
  the rational it denotes.
\<close>

datatype pyfloat = Finite rat | NaN | PosInf | NegInf

text \<open>
  The values a \<open>Cell\<close> holds: \<open>None\<close>, \<open>bool\<close>, \<open>int\<close>, \<open>float\<close>, \<open>str\<close>,
  \<open>datetime.date\<close>, \<open>datetime.time\<close> and \<open>datetime.datetime\<close> (with microsecond 0).
\<close>

datatype pyval =
    VNone
  | VBool bool
  | VInt int
  | VFloat pyfloat
  | VStr string
  | VDate int int int
  | VTime int int int
  | VDateTime int int int int int int

text \<open>
  Exceptions, with the argument the program gives them.  \<open>SpreadsheetError\<close> is the
  class of \<open>pmix.error\<close>; the others are Python's own.
\<close>

datatype pyerr =
    SpreadsheetError string
  | TypeError pyval
  | KeyError pyval
  | IndexError
  | ValueError
  | OverflowError
  | StopIteration
  | XLDateError
  | CsvError

text \<open>\<open>xs[i]\<close> on a list or tuple: a negative index counts from the end.\<close>

definition py_index :: "'a list \<Rightarrow> int \<Rightarrow> pyerr + 'a" where
  "py_index xs i =
     (if 0 \<le> i \<and> i < int (length xs) then Inr (xs ! nat i)
      else if i < 0 \<and> - int (length xs) \<le> i then Inr (xs ! nat (int (length xs) + i))
      else Inl IndexError)"

text \<open>\<open>str(n)\<close> for an int: its decimal digits, with a minus sign when negative.\<close>

function str_nat :: "nat \<Rightarrow> string" where
  "str_nat n = (if n < 10 then [''0123456789'' ! n]
                else str_nat (n div 10) @ [''0123456789'' ! (n mod 10)])"
  by pat_completeness auto
termination
  by (relation "measure (\<lambda>n. n)") auto

declare str_nat.simps [simp del]

definition str_int :: "int \<Rightarrow> string" where
  "str_int i = (if i < 0 then CHR ''-'' # str_nat (nat (- i)) else str_nat (nat i))"

text \<open>
  \<open>template.format(*args)\<close> for the templates of this program, whose only replacement
  field is the auto-numbered \<open>{}\<close>: each \<open>{}\<close> takes the next argument (already
  converted by \<open>str\<close>), \<open>{{\<close> and \<open>}}\<close> are the escaped braces, a field with no
  argument left is an IndexError, any other brace a ValueError; arguments left over are
  ignored.
\<close>

fun py_format :: "string \<Rightarrow> string list \<Rightarrow> pyerr + string" where
  "py_format [] args = Inr []"
| "py_format [c] args =
     (if c = CHR ''{'' \<or> c = CHR ''}'' then Inl ValueError else Inr [c])"
| "py_format (c # d # rest) args =
     (if c = CHR ''{'' \<and> d = CHR ''}'' then
        (case args of
           [] \<Rightarrow> Inl IndexError
         | a # as \<Rightarrow> (case py_format rest as of Inl e \<Rightarrow> Inl e | Inr s \<Rightarrow> Inr (a @ s)))
      else if (c = CHR ''{'' \<and> d = CHR ''{'') \<or> (c = CHR ''}'' \<and> d = CHR ''}'') then
        (case py_format rest args of Inl e \<Rightarrow> Inl e | Inr s \<Rightarrow> Inr (c # s))
      else if c = CHR ''{'' \<or> c = CHR ''}'' then Inl ValueError
      else (case py_format (d # rest) args of Inl e \<Rightarrow> Inl e | Inr s \<Rightarrow> Inr (c # s)))"

section \<open>Cell\<close>

record cell =
  cvalue :: pyval
  highlight :: pyval

text \<open>\<open>Cell(value)\<close>: the constructor; \<open>Cell()\<close> is \<open>Cell VNone\<close>, a blank cell.\<close>

definition Cell :: "pyval \<Rightarrow> cell" where
  "Cell v = \<lparr>cvalue = v, highlight = VNone\<rparr>"

section \<open>Worksheet\<close>

text \<open>
  The rows of a worksheet are lists of cells.  Each row is modelled as a value, that is,
  as a list object of its own, which is how \<open>from_sheet\<close> and \<open>prepend_row\<close> build
  them.
\<close>

record worksheet =
  data :: "cell list list"
  name :: string

text \<open>
  \<open>ncol\<close>: the set comprehension of the row lengths is the duplicate-free list of the
  lengths; \<open>iter(lengths).__next__()\<close> takes an element of it.
\<close>

definition ncol :: "worksheet \<Rightarrow> pyerr + nat" where
  "ncol ws =
     (if length (data ws) > 0 then
        (let lengths = remdups (map length (data ws)) in
         if length lengths > 1 then
           Inl (SpreadsheetError ''Worksheet has inconsistent column counts'')
         else (case lengths of [] \<Rightarrow> Inl StopIteration | l # _ \<Rightarrow> Inr l))
      else Inr 0)"

definition dim :: "worksheet \<Rightarrow> pyerr + (nat \<times> nat)" where
  "dim ws =
     (let nrow = length (data ws) in
      case ncol ws of Inl e \<Rightarrow> Inl e | Inr n \<Rightarrow> Inr (nrow, n))"

text \<open>
  \<open>append_col\<close>: the loop over \<open>enumerate(self)\<close>, with the row index \<open>i\<close>.  The method has
  no failing statement; its result is a sum only so that "it does not fail" can be said.
\<close>

fun append_col_rows :: "nat \<Rightarrow> pyval \<Rightarrow> cell list list \<Rightarrow> cell list list" where
  "append_col_rows i hdr [] = []"
| "append_col_rows i hdr (r # rs) =
     (if i = 0 then r @ [Cell hdr] else r @ [Cell VNone]) # append_col_rows (Suc i) hdr rs"

definition append_col :: "worksheet \<Rightarrow> pyval \<Rightarrow> pyerr + worksheet" where
  "append_col ws hdr = Inr (ws\<lparr>data := append_col_rows 0 hdr (data ws)\<rparr>)"

text \<open>
  \<open>prepend_row\<close>.  An element of the supplied row is a \<open>Cell\<close> already or any other
  value, which is wrapped.  \<open>row=None\<close> is \<open>None\<close> here.
\<close>

datatype pyobj = CellObj cell | ValObj pyval

fun as_cell :: "pyobj \<Rightarrow> cell" where
  "as_cell (CellObj c) = c"
| "as_cell (ValObj v) = Cell v"

definition width_msg :: "nat \<Rightarrow> nat \<Rightarrow> pyerr + string" where
  "width_msg w n =
     py_format ''Worksheet and supplied row width inconsistent ({} vs. {})''
       [str_int (int w), str_int (int n)]"

definition prepend_row :: "worksheet \<Rightarrow> pyobj list option \<Rightarrow> pyerr + worksheet" where
  "prepend_row ws r =
     (case r of
        None \<Rightarrow>
          (if data ws \<noteq> [] then
             Inr (ws\<lparr>data := map (\<lambda>_. Cell VNone) (hd (data ws)) # data ws\<rparr>)
           else Inr (ws\<lparr>data := data ws @ [[Cell VNone]]\<rparr>))
      | Some xs \<Rightarrow>
          (case ncol ws of
             Inl e \<Rightarrow> Inl e
           | Inr n \<Rightarrow>
               if length xs \<noteq> n then
                 (case ncol ws of
                    Inl e \<Rightarrow> Inl e
                  | Inr w \<Rightarrow>
                      (case width_msg w (length xs) of
                         Inl e \<Rightarrow> Inl e
                       | Inr msg \<Rightarrow> Inl (SpreadsheetError msg)))
               else Inr (ws\<lparr>data := map as_cell xs # data ws\<rparr>)))"

text \<open>
  \<open>Cell.__str__\<close>.  \<open>str\<close> of a value: the text of a float is Python's shortest
  round-trip representation, which the rational model does not determine, so it is the
  parameter \<open>fstr\<close>; dates and times print in ISO format.
\<close>

definition zfill :: "nat \<Rightarrow> string \<Rightarrow> string" where
  "zfill n s = replicate (n - length s) (CHR ''0'') @ s"

definition iso_date :: "int \<Rightarrow> int \<Rightarrow> int \<Rightarrow> string" where
  "iso_date y m d =
     zfill 4 (str_int y) @ ''-'' @ zfill 2 (str_int m) @ ''-'' @ zfill 2 (str_int d)"

definition iso_time :: "int \<Rightarrow> int \<Rightarrow> int \<Rightarrow> string" where
  "iso_time h m s =
     zfill 2 (str_int h) @ '':'' @ zfill 2 (str_int m) @ '':'' @ zfill 2 (str_int s)"

fun py_str :: "(pyfloat \<Rightarrow> string) \<Rightarrow> pyval \<Rightarrow> string" where
  "py_str fstr VNone = ''None''"
| "py_str fstr (VBool b) = (if b then ''True'' else ''False'')"
| "py_str fstr (VInt i) = str_int i"
| "py_str fstr (VFloat x) = fstr x"
| "py_str fstr (VStr s) = s"
| "py_str fstr (VDate y m d) = iso_date y m d"
| "py_str fstr (VTime h m s) = iso_time h m s"
| "py_str fstr (VDateTime y m d h mi s) = iso_date y m d @ '' '' @ iso_time h mi s"

definition cell_str :: "(pyfloat \<Rightarrow> string) \<Rightarrow> cell \<Rightarrow> string" where
  "cell_str fstr c = (if cvalue c = VNone then [] else py_str fstr (cvalue c))"

definition column_headers :: "(pyfloat \<Rightarrow> string) \<Rightarrow> worksheet \<Rightarrow> string list" where
  "column_headers fstr ws =
     (if data ws \<noteq> [] then map (cell_str fstr) (hd (data ws)) else [])"

text \<open>
  \<open>headers.index(x)\<close> on the tuple of header strings: the first position holding \<open>x\<close>,
  a ValueError when there is none.  A value that is not a string equals no header.
\<close>

fun tuple_index :: "string list \<Rightarrow> string \<Rightarrow> pyerr + nat" where
  "tuple_index [] x = Inl ValueError"
| "tuple_index (h # hs) x =
     (if h = x then Inr 0
      else (case tuple_index hs x of Inl e \<Rightarrow> Inl e | Inr n \<Rightarrow> Inr (Suc n)))"

fun headers_index :: "string list \<Rightarrow> pyval \<Rightarrow> pyerr + nat" where
  "headers_index hs (VStr s) = tuple_index hs s"
| "headers_index hs v = Inl ValueError"

text \<open>\<open>isinstance(v, int)\<close>: an int, or a bool, which is an int in Python.\<close>

fun as_int :: "pyval \<Rightarrow> int option" where
  "as_int (VInt i) = Some i"
| "as_int (VBool b) = Some (if b then 1 else 0)"
| "as_int v = None"

text \<open>
  A generator is modelled by what it yields, in order, and by how it ends: normally
  (\<open>None\<close>) or with the exception that stops it.  \<open>column\<close> resolves the key when the
  generator is first advanced and then reads \<open>row[col]\<close> row by row.
\<close>

type_synonym 'a generated = "'a list \<times> pyerr option"

fun column_rows :: "int \<Rightarrow> cell list list \<Rightarrow> cell generated" where
  "column_rows c [] = ([], None)"
| "column_rows c (r # rs) =
     (case py_index r c of
        Inl e \<Rightarrow> ([], Some e)
      | Inr x \<Rightarrow> (case column_rows c rs of (ys, e) \<Rightarrow> (x # ys, e)))"

definition column_key :: "(pyfloat \<Rightarrow> string) \<Rightarrow> worksheet \<Rightarrow> pyval \<Rightarrow> pyerr + int" where
  "column_key fstr ws key =
     (case key of
        VStr s \<Rightarrow>
          (case tuple_index (column_headers fstr ws) s of
             Inl e \<Rightarrow> Inl (KeyError key)
           | Inr n \<Rightarrow> Inr (int n))
      | _ \<Rightarrow>
          (case as_int key of
             Some i \<Rightarrow> Inr i
           | None \<Rightarrow> Inl (TypeError key)))"

definition column :: "(pyfloat \<Rightarrow> string) \<Rightarrow> worksheet \<Rightarrow> pyval \<Rightarrow> cell generated" where
  "column fstr ws key =
     (case column_key fstr ws key of
        Inl e \<Rightarrow> ([], Some e)
      | Inr c \<Rightarrow> column_rows c (data ws))"

text \<open>
  \<open>column_pairs\<close>.  A descriptor is the dictionary with the keys \<open>row\<close>, \<open>col\<close>,
  \<open>header\<close> and \<open>cell\<close>.
\<close>

record cell_data =
  row :: int
  col :: int
  header :: string
  cell :: cell

definition resolve_item :: "string list \<Rightarrow> pyval \<Rightarrow> pyerr + int" where
  "resolve_item hs i =
     (case as_int i of
        Some k \<Rightarrow> Inr k
      | None \<Rightarrow> (case headers_index hs i of Inl e \<Rightarrow> Inl e | Inr n \<Rightarrow> Inr (int n)))"

fun resolve_indices :: "string list \<Rightarrow> pyval list \<Rightarrow> int list \<Rightarrow> pyerr + int list" where
  "resolve_indices hs [] result = Inr result"
| "resolve_indices hs (i # is) result =
     (case resolve_item hs i of
        Inl e \<Rightarrow> Inl e
      | Inr item \<Rightarrow>
          resolve_indices hs is (if item \<notin> set result then result @ [item] else result))"

definition descriptor :: "string list \<Rightarrow> int \<Rightarrow> int \<Rightarrow> cell list \<Rightarrow> pyerr + cell_data" where
  "descriptor hs i j r =
     (case py_index hs j of
        Inl e \<Rightarrow> Inl e
      | Inr h \<Rightarrow>
          (case py_index r j of
             Inl e \<Rightarrow> Inl e
           | Inr c \<Rightarrow> Inr \<lparr>row = i, col = j, header = h, cell = c\<rparr>))"

fun pairs_in_row ::
  "string list \<Rightarrow> cell_data \<Rightarrow> int \<Rightarrow> cell list \<Rightarrow> int list \<Rightarrow> (cell_data \<times> cell_data) generated"
where
  "pairs_in_row hs base_data i r [] = ([], None)"
| "pairs_in_row hs base_data i r (j # js) =
     (case descriptor hs i j r of
        Inl e \<Rightarrow> ([], Some e)
      | Inr other_data \<Rightarrow>
          (case pairs_in_row hs base_data i r js of
             (ps, e) \<Rightarrow> ((base_data, other_data) # ps, e)))"

fun pairs_rows ::
  "string list \<Rightarrow> int \<Rightarrow> int list \<Rightarrow> int \<Rightarrow> int \<Rightarrow> cell list list
     \<Rightarrow> (cell_data \<times> cell_data) generated"
where
  "pairs_rows hs base indices start i [] = ([], None)"
| "pairs_rows hs base indices start i (r # rs) =
     (if i < start then pairs_rows hs base indices start (i + 1) rs
      else
        (case descriptor hs i base r of
           Inl e \<Rightarrow> ([], Some e)
         | Inr base_data \<Rightarrow>
             (case pairs_in_row hs base_data i r indices of
                (ps, Some e) \<Rightarrow> (ps, Some e)
              | (ps, None) \<Rightarrow>
                  (case pairs_rows hs base indices start (i + 1) rs of
                     (qs, e) \<Rightarrow> (ps @ qs, e)))))"

definition column_pairs ::
  "(pyfloat \<Rightarrow> string) \<Rightarrow> worksheet \<Rightarrow> pyval list option \<Rightarrow> pyval option \<Rightarrow> int
     \<Rightarrow> (cell_data \<times> cell_data) generated"
where
  "column_pairs fstr ws indices base start =
     (let headers = column_headers fstr ws in
      case (case indices of
              None \<Rightarrow>
                (case ncol ws of Inl e \<Rightarrow> Inl e | Inr n \<Rightarrow> Inr (map int [0..<n]))
            | Some is \<Rightarrow> resolve_indices headers is [])
      of
        Inl e \<Rightarrow> ([], Some e)
      | Inr idx \<Rightarrow>
          if idx = [] then ([], None)
          else
            (case (case base of
                     None \<Rightarrow> Inr (hd idx, tl idx)
                   | Some b \<Rightarrow>
                       (case resolve_item headers b of
                          Inl e \<Rightarrow> Inl e
                        | Inr k \<Rightarrow> Inr (k, remove1 k idx)))
             of
               Inl e \<Rightarrow> ([], Some e)
             | Inr (k, rest) \<Rightarrow> pairs_rows headers k rest start 0 (data ws)))"

section \<open>Cell values from xlrd cells\<close>

text \<open>
  An \<open>xlrd.Cell\<close> has a type tag \<open>ctype\<close> and a value whose Python type the tag fixes:
  text for \<open>XL_CELL_TEXT\<close>, a float for \<open>XL_CELL_NUMBER\<close> and \<open>XL_CELL_DATE\<close>, an
  int for \<open>XL_CELL_BOOLEAN\<close> and \<open>XL_CELL_ERROR\<close> (the error code), the empty string for
  \<open>XL_CELL_EMPTY\<close>.  The tags are the integers 0 to 5 in this order; every other tag, as
  xlrd's \<open>XL_CELL_BLANK = 6\<close>, is \<open>XL_CELL_OTHER n\<close> with tag \<open>6 + n\<close> and a text value.
\<close>

datatype xlrd_cell =
    XL_CELL_EMPTY
  | XL_CELL_TEXT string
  | XL_CELL_NUMBER pyfloat
  | XL_CELL_DATE pyfloat
  | XL_CELL_BOOLEAN int
  | XL_CELL_ERROR int
  | XL_CELL_OTHER nat string

fun ctype :: "xlrd_cell \<Rightarrow> int" where
  "ctype XL_CELL_EMPTY = 0"
| "ctype (XL_CELL_TEXT s) = 1"
| "ctype (XL_CELL_NUMBER x) = 2"
| "ctype (XL_CELL_DATE x) = 3"
| "ctype (XL_CELL_BOOLEAN b) = 4"
| "ctype (XL_CELL_ERROR c) = 5"
| "ctype (XL_CELL_OTHER n s) = 6 + int n"

text \<open>\<open>str.strip()\<close>: the whitespace characters of Python below code point 256.\<close>

definition py_isspace :: "char \<Rightarrow> bool" where
  "py_isspace c =
     ((of_char c :: nat) \<in> {9, 10, 11, 12, 13, 28, 29, 30, 31, 32, 133, 160})"

definition strip :: "string \<Rightarrow> string" where
  "strip s = rev (dropWhile py_isspace (rev (dropWhile py_isspace s)))"

text \<open>
  \<open>int(x)\<close> for a float truncates towards zero; it raises ValueError for a NaN and
  OverflowError for an infinity.  \<open>i == x\<close> between an int and a float is exact.
\<close>

fun float_to_int :: "pyfloat \<Rightarrow> pyerr + int" where
  "float_to_int (Finite r) = Inr (if r < 0 then - \<lfloor>- r\<rfloor> else \<lfloor>r\<rfloor>)"
| "float_to_int NaN = Inl ValueError"
| "float_to_int PosInf = Inl OverflowError"
| "float_to_int NegInf = Inl OverflowError"

fun int_eq_float :: "int \<Rightarrow> pyfloat \<Rightarrow> bool" where
  "int_eq_float i (Finite r) = (of_int i = r)"
| "int_eq_float i x = False"

text \<open>
  The constructors of \<open>datetime\<close>, which raise ValueError for a component out of range.
\<close>

definition is_leap :: "int \<Rightarrow> bool" where
  "is_leap y = (y mod 4 = 0 \<and> (y mod 100 \<noteq> 0 \<or> y mod 400 = 0))"

definition days_in_month :: "int \<Rightarrow> int \<Rightarrow> int" where
  "days_in_month y m =
     (if m = 2 then (if is_leap y then 29 else 28)
      else if m = 4 \<or> m = 6 \<or> m = 9 \<or> m = 11 then 30 else 31)"

definition date_ok :: "int \<Rightarrow> int \<Rightarrow> int \<Rightarrow> bool" where
  "date_ok y m d =
     (1 \<le> y \<and> y \<le> 9999 \<and> 1 \<le> m \<and> m \<le> 12 \<and> 1 \<le> d \<and> d \<le> days_in_month y m)"

definition time_ok :: "int \<Rightarrow> int \<Rightarrow> int \<Rightarrow> bool" where
  "time_ok h m s = (0 \<le> h \<and> h < 24 \<and> 0 \<le> m \<and> m < 60 \<and> 0 \<le> s \<and> s < 60)"

definition datetime_date :: "int \<Rightarrow> int \<Rightarrow> int \<Rightarrow> pyerr + pyval" where
  "datetime_date y m d = (if date_ok y m d then Inr (VDate y m d) else Inl ValueError)"

definition datetime_time :: "int \<Rightarrow> int \<Rightarrow> int \<Rightarrow> pyerr + pyval" where
  "datetime_time h m s = (if time_ok h m s then Inr (VTime h m s) else Inl ValueError)"

definition datetime_datetime ::
  "int \<Rightarrow> int \<Rightarrow> int \<Rightarrow> int \<Rightarrow> int \<Rightarrow> int \<Rightarrow> pyerr + pyval" where
  "datetime_datetime y m d h mi s =
     (if date_ok y m d \<and> time_ok h mi s then Inr (VDateTime y m d h mi s)
      else Inl ValueError)"

text \<open>The two messages of \<open>cell_value\<close>, as the source writes them.\<close>

definition error_cell_template :: string where
  "error_cell_template =
     ''Error cell found. Please correct or erase error cell from '' @
     ''file and try again.'' @ [CHR 0x0A, CHR 0x0A] @
     ''Error cells are likely to be one of'' @
     '' the following: #N/A, #NULL!, #DIV/0!, #VALUE!, #REF!, '' @
     ''#NAME?, #NUM!, #GETTING_DATA''"

definition unhandled_template :: string where
  "unhandled_template =
     ''Unhandled cell exception.'' @ [CHR 0x0A] @ ''Type: {}'' @ [CHR 0x0A] @ ''Value: {}''"

text \<open>
  \<open>Cell.cell_value\<close>.  \<open>xlrd.xldate_as_tuple\<close> belongs to the xlrd library and rounds in
  floating point; it is the parameter \<open>xldate_as_tuple\<close>, which returns the tuple
  (year, month, day, hour, minute, second) or xlrd's exception.
\<close>

type_synonym date_tuple = "int \<times> int \<times> int \<times> int \<times> int \<times> int"

fun cell_value ::
  "(pyfloat \<Rightarrow> int \<Rightarrow> pyerr + date_tuple) \<Rightarrow> xlrd_cell \<Rightarrow> int option \<Rightarrow> bool \<Rightarrow> pyerr + pyval"
where
  "cell_value xldate_as_tuple (XL_CELL_BOOLEAN b) datemode stripstr =
     Inr (VBool (if b = 1 then True else False))"
| "cell_value xldate_as_tuple XL_CELL_EMPTY datemode stripstr = Inr VNone"
| "cell_value xldate_as_tuple (XL_CELL_TEXT s) datemode stripstr =
     (if stripstr then Inr (VStr (strip s)) else Inr (VStr s))"
| "cell_value xldate_as_tuple (XL_CELL_NUMBER x) datemode stripstr =
     (case float_to_int x of
        Inl e \<Rightarrow> Inl e
      | Inr int_val \<Rightarrow> Inr (if int_eq_float int_val x then VInt int_val else VFloat x))"
| "cell_value xldate_as_tuple (XL_CELL_DATE x) datemode stripstr =
     (let dm = (case datemode of None \<Rightarrow> 1 | Some m \<Rightarrow> m) in
      case xldate_as_tuple x dm of
        Inl e \<Rightarrow> Inl e
      | Inr (y, mo, d, h, mi, s) \<Rightarrow>
          if (y, mo, d) = (0, 0, 0) then datetime_time h mi s
          else if (h, mi, s) = (0, 0, 0) then datetime_date y mo d
          else datetime_datetime y mo d h mi s)"
| "cell_value xldate_as_tuple (XL_CELL_ERROR c) datemode stripstr =
     (case py_format error_cell_template [str_int (ctype (XL_CELL_ERROR c)), str_int c] of
        Inl e \<Rightarrow> Inl e
      | Inr msg \<Rightarrow> Inl (TypeError (VStr msg)))"
| "cell_value xldate_as_tuple (XL_CELL_OTHER n v) datemode stripstr =
     (case py_format unhandled_template [str_int (ctype (XL_CELL_OTHER n v)), v] of
        Inl e \<Rightarrow> Inl e
      | Inr msg \<Rightarrow> Inl (TypeError (VStr msg)))"






section \<open>Export as CSV\<close>

text \<open>
  \<open>to_csv\<close> writes with \<open>csv.writer\<close> in its default dialect (\<open>excel\<close>): the delimiter
  is the comma, the quote character the double quote, a quote inside a field is doubled,
  a field is quoted only when it holds the delimiter, a quote, a carriage return or a line
  feed, a row that is a single empty field is written as two quotes, and every row ends
  with carriage return and line feed.  \<open>csv_writerow\<close> is the text \<open>writerow\<close> writes
  for a row of strings.
\<close>

abbreviation (input) DQ :: char where "DQ \<equiv> CHR 0x22"
abbreviation (input) CR :: char where "CR \<equiv> CHR 0x0D"
abbreviation (input) LF :: char where "LF \<equiv> CHR 0x0A"
abbreviation (input) COMMA :: char where "COMMA \<equiv> CHR 0x2C"









datatype reader_state =
    START_RECORD
  | START_FIELD
  | IN_FIELD
  | IN_QUOTED_FIELD
  | QUOTE_IN_QUOTED_FIELD
  | EAT_CRNL

datatype event = Ch char | EOL

type_synonym parser = "reader_state \<times> string \<times> string list"

definition field_limit :: nat where
  "field_limit = 131072"

definition parse_add_char ::
  "reader_state \<Rightarrow> string \<Rightarrow> string list \<Rightarrow> char \<Rightarrow> pyerr + parser" where
  "parse_add_char st f fs c =
     (if length f \<ge> field_limit then Inl CsvError else Inr (st, f @ [c], fs))"

definition start_field :: "string \<Rightarrow> string list \<Rightarrow> event \<Rightarrow> pyerr + parser" where
  "start_field f fs ev =
     (case ev of
        EOL \<Rightarrow> Inr (START_RECORD, [], fs @ [f])
      | Ch c \<Rightarrow>
          if c = LF \<or> c = CR then Inr (EAT_CRNL, [], fs @ [f])
          else if c = DQ then Inr (IN_QUOTED_FIELD, f, fs)
          else if c = COMMA then Inr (START_FIELD, [], fs @ [f])
          else parse_add_char IN_FIELD f fs c)"

fun parse_process_char :: "parser \<Rightarrow> event \<Rightarrow> pyerr + parser" where
  "parse_process_char (START_RECORD, f, fs) ev =
     (case ev of
        EOL \<Rightarrow> Inr (START_RECORD, f, fs)
      | Ch c \<Rightarrow>
          if c = LF \<or> c = CR then Inr (EAT_CRNL, f, fs) else start_field f fs ev)"
| "parse_process_char (START_FIELD, f, fs) ev = start_field f fs ev"
| "parse_process_char (IN_FIELD, f, fs) ev =
     (case ev of
        EOL \<Rightarrow> Inr (START_RECORD, [], fs @ [f])
      | Ch c \<Rightarrow>
          if c = LF \<or> c = CR then Inr (EAT_CRNL, [], fs @ [f])
          else if c = COMMA then Inr (START_FIELD, [], fs @ [f])
          else parse_add_char IN_FIELD f fs c)"
| "parse_process_char (IN_QUOTED_FIELD, f, fs) ev =
     (case ev of
        EOL \<Rightarrow> Inr (IN_QUOTED_FIELD, f, fs)
      | Ch c \<Rightarrow>
          if c = DQ then Inr (QUOTE_IN_QUOTED_FIELD, f, fs)
          else parse_add_char IN_QUOTED_FIELD f fs c)"
| "parse_process_char (QUOTE_IN_QUOTED_FIELD, f, fs) ev =
     (case ev of
        EOL \<Rightarrow> Inr (START_RECORD, [], fs @ [f])
      | Ch c \<Rightarrow>
          if c = DQ then parse_add_char IN_QUOTED_FIELD f fs c
          else if c = COMMA then Inr (START_FIELD, [], fs @ [f])
          else if c = LF \<or> c = CR then Inr (EAT_CRNL, [], fs @ [f])
          else parse_add_char IN_FIELD f fs c)"
| "parse_process_char (EAT_CRNL, f, fs) ev =
     (case ev of
        EOL \<Rightarrow> Inr (START_RECORD, f, fs)
      | Ch c \<Rightarrow> if c = LF \<or> c = CR then Inr (EAT_CRNL, f, fs) else Inl CsvError)"

fun process_chars :: "parser \<Rightarrow> string \<Rightarrow> pyerr + parser" where
  "process_chars p [] = Inr p"
| "process_chars p (c # cs) =
     (case parse_process_char p (Ch c) of
        Inl e \<Rightarrow> Inl e
      | Inr q \<Rightarrow> process_chars q cs)"

definition process_line :: "parser \<Rightarrow> string \<Rightarrow> pyerr + parser" where
  "process_line p l =
     (case process_chars p l of
        Inl e \<Rightarrow> Inl e
      | Inr q \<Rightarrow> parse_process_char q EOL)"







section \<open>Vocabulary of the statements\<close>

text \<open>
  Python indexing in the statements: \<open>index_ok k r\<close> says that \<open>r[k]\<close> exists, and
  \<open>item k r\<close> is that element, a negative \<open>k\<close> counting from the end.
\<close>

definition index_ok :: "int \<Rightarrow> 'a list \<Rightarrow> bool" where
  "index_ok k r = (- int (length r) \<le> k \<and> k < int (length r))"

definition item :: "int \<Rightarrow> 'a list \<Rightarrow> 'a" where
  "item k r = r ! nat (if k < 0 then int (length r) + k else k)"

text \<open>
  The concrete examples contain no float in a cell, so any conversion of floats to text
  serves them; they use \<open>no_floats\<close>.  Those that decode a date use \<open>xldate_sample\<close>:
  the values of \<open>xlrd.xldate_as_tuple\<close> in date mode 1 (the 1904 date system, day 0 being
  1904-01-01) at the raw dates 0.0, 0.5, 1.0 and 1.5, which xlrd computes without rounding;
  everywhere else it stands for xlrd's exception.
\<close>

definition no_floats :: "pyfloat \<Rightarrow> string" where
  "no_floats x = []"

definition xldate_sample :: "pyfloat \<Rightarrow> int \<Rightarrow> pyerr + date_tuple" where
  "xldate_sample x dm =
     (if dm = 1 \<and> x = Finite 0 then Inr (0, 0, 0, 0, 0, 0)
      else if dm = 1 \<and> x = Finite (1 / 2) then Inr (0, 0, 0, 12, 0, 0)
      else if dm = 1 \<and> x = Finite 1 then Inr (1904, 1, 2, 0, 0, 0)
      else if dm = 1 \<and> x = Finite (3 / 2) then Inr (1904, 1, 2, 12, 0, 0)
      else Inl XLDateError)"

section \<open>Dimensions: \<open>dim\<close> and \<open>ncol\<close>\<close>

lemma ncol_empty: "data ws = [] \<Longrightarrow> ncol ws = Inr 0"
  by (simp add: ncol_def)

lemma remdups_same_length:
  "rs \<noteq> [] \<Longrightarrow> \<forall>r \<in> set rs. length r = L \<Longrightarrow> remdups (map length rs) = [L]"
proof (induction rs)
  case Nil
  then show ?case by simp
next
  case (Cons r rs)
  show ?case
  proof (cases "rs = []")
    case True
    with Cons.prems show ?thesis by simp
  next
    case False
    with Cons have "remdups (map length rs) = [L]" by simp
    moreover from False Cons.prems have "L \<in> length ` set rs" by (cases rs) auto
    ultimately show ?thesis using Cons.prems by simp
  qed
qed

lemma two_lengths_remdups:
  assumes "a \<in> set xs" "b \<in> set xs" "a \<noteq> b"
  shows "length (remdups xs) > 1"
proof -
  have "{a, b} \<subseteq> set xs" using assms by simp
  then have "card {a, b} \<le> card (set xs)" by (intro card_mono) simp_all
  moreover have "card {a, b} = 2" using assms(3) by simp
  ultimately show ?thesis by (simp add: length_remdups_card_conv)
qed

lemma ncol_ragged:
  assumes "r \<in> set (data ws)" "r' \<in> set (data ws)" "length r \<noteq> length r'"
  shows "ncol ws = Inl (SpreadsheetError ''Worksheet has inconsistent column counts'')"
proof -
  have "length (remdups (map length (data ws))) > 1"
    using assms by (intro two_lengths_remdups[of "length r" _ "length r'"]) auto
  moreover have "data ws \<noteq> []" using assms by auto
  ultimately show ?thesis by (simp add: ncol_def Let_def)
qed

lemma ncol_rect:
  "data ws \<noteq> [] \<Longrightarrow> \<forall>r \<in> set (data ws). length r = L \<Longrightarrow> ncol ws = Inr L"
proof -
  assume a: "data ws \<noteq> []" "\<forall>r \<in> set (data ws). length r = L"
  then have "remdups (map length (data ws)) = [L]" by (rule remdups_same_length)
  with a(1) show ?thesis by (simp add: ncol_def Let_def)
qed

text \<open>
  C5: \<open>dim()\<close> returns (0, 0) when the worksheet has no rows; it fails with the
  SpreadsheetError of inconsistent column counts when two rows differ in length; and when
  the worksheet has rows, all of length \<open>L\<close>, it returns (row count, \<open>L\<close>).
\<close>

theorem dim_cases:
  "(data ws = [] \<longrightarrow> dim ws = Inr (0, 0)) \<and>
   ((\<exists>r \<in> set (data ws). \<exists>r' \<in> set (data ws). length r \<noteq> length r') \<longrightarrow>
      dim ws = Inl (SpreadsheetError ''Worksheet has inconsistent column counts'')) \<and>
   (data ws \<noteq> [] \<and> (\<forall>r \<in> set (data ws). length r = L) \<longrightarrow>
      dim ws = Inr (length (data ws), L))"
proof (intro conjI impI)
  assume "data ws = []"
  then show "dim ws = Inr (0, 0)" by (simp add: dim_def ncol_empty)
next
  assume "\<exists>r \<in> set (data ws). \<exists>r' \<in> set (data ws). length r \<noteq> length r'"
  then obtain r r' where "r \<in> set (data ws)" "r' \<in> set (data ws)" "length r \<noteq> length r'"
    by blast
  then show "dim ws = Inl (SpreadsheetError ''Worksheet has inconsistent column counts'')"
    by (simp add: dim_def ncol_ragged)
next
  assume "data ws \<noteq> [] \<and> (\<forall>r \<in> set (data ws). length r = L)"
  then have "ncol ws = Inr L" by (simp add: ncol_rect)
  then show "dim ws = Inr (length (data ws), L)"
    by (simp add: dim_def)
qed

theorem dim_cases_witness:
  "dim \<lparr>data = [], name = ''sheet1''\<rparr> = Inr (0, 0) \<and>
   dim \<lparr>data = [[Cell VNone, Cell VNone, Cell VNone],
                [Cell VNone, Cell VNone, Cell VNone, Cell VNone]], name = ''sheet1''\<rparr>
     = Inl (SpreadsheetError ''Worksheet has inconsistent column counts'') \<and>
   dim \<lparr>data = [[Cell (VStr ''A''), Cell (VStr ''B'')], [Cell (VInt 1), Cell VNone]],
        name = ''sheet1''\<rparr> = Inr (2, 2)"
proof (intro conjI)
  show "dim \<lparr>data = [], name = ''sheet1''\<rparr> = Inr (0, 0)"
    using dim_cases [of "\<lparr>data = [], name = ''sheet1''\<rparr>" 0] by simp
  have "length [Cell VNone, Cell VNone, Cell VNone]
          \<noteq> length [Cell VNone, Cell VNone, Cell VNone, Cell VNone]" by simp
  then show "dim \<lparr>data = [[Cell VNone, Cell VNone, Cell VNone],
                [Cell VNone, Cell VNone, Cell VNone, Cell VNone]], name = ''sheet1''\<rparr>
     = Inl (SpreadsheetError ''Worksheet has inconsistent column counts'')"
    using dim_cases [of "\<lparr>data = [[Cell VNone, Cell VNone, Cell VNone],
                [Cell VNone, Cell VNone, Cell VNone, Cell VNone]], name = ''sheet1''\<rparr>" 0]
    by fastforce
  show "dim \<lparr>data = [[Cell (VStr ''A''), Cell (VStr ''B'')], [Cell (VInt 1), Cell VNone]],
        name = ''sheet1''\<rparr> = Inr (2, 2)"
    using dim_cases [of "\<lparr>data = [[Cell (VStr ''A''), Cell (VStr ''B'')], [Cell (VInt 1), Cell VNone]],
        name = ''sheet1''\<rparr>" 2]
    by simp
qed

text \<open>
  C10: on a worksheet with zero rows \<open>append_col(header)\<close> succeeds for every header
  and leaves the worksheet as it was: the header is dropped, no row is created, and
  \<open>dim()\<close> is still (0, 0).
\<close>

theorem append_col_empty:
  "data ws = [] \<Longrightarrow> append_col ws hdr = Inr ws \<and> dim ws = Inr (0, 0)"
  by (simp add: append_col_def dim_def ncol_empty)

theorem append_col_empty_witness:
  "append_col \<lparr>data = [], name = ''sheet1''\<rparr> (VStr ''total'') = Inr \<lparr>data = [], name = ''sheet1''\<rparr>
   \<and> dim \<lparr>data = [], name = ''sheet1''\<rparr> = Inr (0, 0)"
  using append_col_empty [of "\<lparr>data = [], name = ''sheet1''\<rparr>" "VStr ''total''"]
  by simp

section \<open>Appending a column\<close>

lemma append_col_rows_enumerate:
  "append_col_rows n hdr rs =
     map (\<lambda>(i, r). r @ [Cell (if i = 0 then hdr else VNone)]) (enumerate n rs)"
  by (induction rs arbitrary: n) simp_all

lemma append_col_rows_lengths:
  "map length (append_col_rows n hdr rs) = map Suc (map length rs)"
  by (induction rs arbitrary: n) simp_all

lemma length_remdups_map_Suc: "length (remdups (map Suc xs)) = length (remdups xs)"
proof -
  have "card (Suc ` set xs) = card (set xs)" by (rule card_image) simp
  then show ?thesis by (simp add: length_remdups_card_conv)
qed

lemma ncol_error_iff:
  "ncol ws = Inl e \<longleftrightarrow>
     (length (remdups (map length (data ws))) > 1 \<and>
      e = SpreadsheetError ''Worksheet has inconsistent column counts'')"
proof (cases "data ws = []")
  case True
  then show ?thesis by (simp add: ncol_def)
next
  case False
  then have "remdups (map length (data ws)) \<noteq> []" by simp
  with False show ?thesis
    by (auto simp: ncol_def Let_def split: list.splits)
qed

lemma dim_error_iff: "dim ws = Inl e \<longleftrightarrow> ncol ws = Inl e"
  by (simp add: dim_def split: sum.splits)

text \<open>
  C4, as the code has it: \<open>append_col\<close> makes no column-count check and never fails.
  On every worksheet, rectangular or not, it completes, extends row 0 by a cell holding
  the header and every other row by a blank cell, and a worksheet whose rows differed in
  length (one on which \<open>dim()\<close> fails) still has rows that differ in length afterwards.
\<close>

theorem append_col_no_check:
  "\<exists>ws'. append_col ws hdr = Inr ws' \<and> name ws' = name ws \<and>
     data ws' = map (\<lambda>(i, r). r @ [Cell (if i = 0 then hdr else VNone)])
                  (enumerate 0 (data ws)) \<and>
     (dim ws = Inl e \<longrightarrow> dim ws' = Inl e)"
proof -
  let ?ws' = "ws\<lparr>data := append_col_rows 0 hdr (data ws)\<rparr>"
  have "map length (data ?ws') = map Suc (map length (data ws))"
    by (simp add: append_col_rows_lengths)
  then have "length (remdups (map length (data ?ws'))) = length (remdups (map length (data ws)))"
    by (simp only: length_remdups_map_Suc)
  then have "dim ws = Inl e \<longrightarrow> dim ?ws' = Inl e"
    by (simp only: dim_error_iff ncol_error_iff) simp
  then show ?thesis
    by (simp add: append_col_def append_col_rows_enumerate)
qed

theorem append_col_no_check_witness:
  "\<exists>ws'. append_col \<lparr>data = [[Cell (VStr ''A'')], [Cell (VInt 1), Cell (VInt 2)]],
                       name = ''sheet1''\<rparr> (VStr ''B'') = Inr ws' \<and>
     data ws' = [[Cell (VStr ''A''), Cell (VStr ''B'')],
                 [Cell (VInt 1), Cell (VInt 2), Cell VNone]] \<and>
     dim ws' = Inl (SpreadsheetError ''Worksheet has inconsistent column counts'')"
proof -
  let ?ws = "\<lparr>data = [[Cell (VStr ''A'')], [Cell (VInt 1), Cell (VInt 2)]], name = ''sheet1''\<rparr>"
  have d: "dim ?ws = Inl (SpreadsheetError ''Worksheet has inconsistent column counts'')"
    by (simp add: dim_def ncol_def)
  from append_col_no_check [of ?ws "VStr ''B''"
      "SpreadsheetError ''Worksheet has inconsistent column counts''"] d
  show ?thesis by (auto simp add: enumerate_eq_zip upt_rec)
qed

text \<open>
  C4 as stated fails: on a worksheet with a row of one cell and a row of two cells, for
  which \<open>dim()\<close> raises the SpreadsheetError, \<open>append_col('B')\<close> returns normally with
  both rows one cell longer.
\<close>

theorem append_col_ragged_counterexample:
  "dim \<lparr>data = [[Cell (VStr ''A'')], [Cell (VInt 1), Cell (VInt 2)]], name = ''sheet1''\<rparr>
     = Inl (SpreadsheetError ''Worksheet has inconsistent column counts'') \<and>
   append_col \<lparr>data = [[Cell (VStr ''A'')], [Cell (VInt 1), Cell (VInt 2)]],
                name = ''sheet1''\<rparr> (VStr ''B'')
     = Inr \<lparr>data = [[Cell (VStr ''A''), Cell (VStr ''B'')],
                    [Cell (VInt 1), Cell (VInt 2), Cell VNone]], name = ''sheet1''\<rparr>"
  by (simp add: dim_def ncol_def append_col_def)

section \<open>Prepending a row\<close>

lemma width_msg_eq:
  "width_msg w n =
     Inr (''Worksheet and supplied row width inconsistent ('' @ str_int (int w) @
          '' vs. '' @ str_int (int n) @ '')'')"
  by (simp add: width_msg_def)

lemma prepend_row_none:
  assumes "data ws \<noteq> []" "\<forall>r \<in> set (data ws). length r = W"
  shows "prepend_row ws None = Inr (ws\<lparr>data := replicate W (Cell VNone) # data ws\<rparr>)"
proof -
  from assms have "length (hd (data ws)) = W" by (cases "data ws") auto
  then have "map (\<lambda>_. Cell VNone) (hd (data ws)) = replicate W (Cell VNone)"
    by (simp add: map_replicate_const)
  with assms(1) show ?thesis by (simp add: prepend_row_def)
qed

text \<open>
  C8: on a worksheet with at least one row, all rows of width \<open>W\<close>, \<open>prepend_row()\<close>
  puts a row of \<open>W\<close> blank cells in front of the existing rows, which stay as they were
  (so there is one row more); \<open>prepend_row(row)\<close> with a row of another length raises the
  SpreadsheetError whose message names \<open>W\<close> and the length of the row.  The exception is
  raised before any statement that changes the worksheet, so no new worksheet state
  results.
\<close>

theorem prepend_row_rectangular:
  assumes "data ws \<noteq> []" and "\<forall>r \<in> set (data ws). length r = W"
  shows "prepend_row ws None = Inr (ws\<lparr>data := replicate W (Cell VNone) # data ws\<rparr>) \<and>
         (length xs \<noteq> W \<longrightarrow>
            prepend_row ws (Some xs) =
              Inl (SpreadsheetError
                (''Worksheet and supplied row width inconsistent ('' @ str_int (int W) @
                 '' vs. '' @ str_int (int (length xs)) @ '')'')))"
proof (intro conjI impI)
  show "prepend_row ws None = Inr (ws\<lparr>data := replicate W (Cell VNone) # data ws\<rparr>)"
    using assms by (rule prepend_row_none)
next
  assume "length xs \<noteq> W"
  moreover have "ncol ws = Inr W" using assms by (rule ncol_rect)
  ultimately show "prepend_row ws (Some xs) =
              Inl (SpreadsheetError
                (''Worksheet and supplied row width inconsistent ('' @ str_int (int W) @
                 '' vs. '' @ str_int (int (length xs)) @ '')''))"
    by (simp add: prepend_row_def width_msg_eq)
qed

lemma str_nat_digit: "n < 10 \<Longrightarrow> str_nat n = [''0123456789'' ! n]"
  by (simp add: str_nat.simps)

theorem prepend_row_rectangular_witness:
  "prepend_row \<lparr>data = [[Cell (VStr ''A''), Cell (VStr ''B''), Cell (VStr ''C'')],
                         [Cell (VInt 1), Cell (VInt 2), Cell (VInt 3)]], name = ''sheet1''\<rparr> None
     = Inr \<lparr>data = [[Cell VNone, Cell VNone, Cell VNone],
                    [Cell (VStr ''A''), Cell (VStr ''B''), Cell (VStr ''C'')],
                    [Cell (VInt 1), Cell (VInt 2), Cell (VInt 3)]], name = ''sheet1''\<rparr> \<and>
   prepend_row \<lparr>data = [[Cell (VStr ''A''), Cell (VStr ''B''), Cell (VStr ''C'')],
                         [Cell (VInt 1), Cell (VInt 2), Cell (VInt 3)]], name = ''sheet1''\<rparr>
       (Some [ValObj (VInt 1), ValObj (VInt 2)])
     = Inl (SpreadsheetError ''Worksheet and supplied row width inconsistent (3 vs. 2)'')"
  using prepend_row_rectangular
    [of "\<lparr>data = [[Cell (VStr ''A''), Cell (VStr ''B''), Cell (VStr ''C'')],
                  [Cell (VInt 1), Cell (VInt 2), Cell (VInt 3)]], name = ''sheet1''\<rparr>" 3
        "[ValObj (VInt 1), ValObj (VInt 2)]"]
  by (simp add: str_int_def str_nat_digit numeral_3_eq_3)

section \<open>Reading a column\<close>

lemma py_index_item: "index_ok k r \<Longrightarrow> py_index r k = Inr (item k r)"
  by (auto simp: index_ok_def py_index_def item_def)

lemma py_index_error: "\<not> index_ok k r \<Longrightarrow> py_index r k = Inl IndexError"
  by (auto simp: index_ok_def py_index_def)

lemma column_rows_eq:
  "column_rows k rs =
     (map (item k) (takeWhile (index_ok k) rs),
      if list_all (index_ok k) rs then None else Some IndexError)"
proof (induction rs)
  case Nil
  show ?case by simp
next
  case (Cons r rs)
  show ?case
  proof (cases "index_ok k r")
    case True
    then show ?thesis using Cons.IH by (simp add: py_index_item)
  next
    case False
    then show ?thesis by (simp add: py_index_error)
  qed
qed

lemma tuple_index_absent: "s \<notin> set hs \<Longrightarrow> tuple_index hs s = Inl ValueError"
  by (induction hs) auto

lemma tuple_index_present:
  "s \<in> set hs \<Longrightarrow>
     \<exists>n. tuple_index hs s = Inr n \<and> n < length hs \<and> hs ! n = s \<and> (\<forall>m<n. hs ! m \<noteq> s)"
proof (induction hs)
  case Nil
  then show ?case by simp
next
  case (Cons h hs)
  show ?case
  proof (cases "h = s")
    case True
    then show ?thesis by simp
  next
    case False
    with Cons.prems have "s \<in> set hs" by simp
    then obtain n where n: "tuple_index hs s = Inr n" "n < length hs" "hs ! n = s"
      "\<forall>m<n. hs ! m \<noteq> s" using Cons.IH by blast
    have "\<forall>m<Suc n. (h # hs) ! m \<noteq> s"
    proof (intro allI impI)
      fix m assume "m < Suc n"
      then show "(h # hs) ! m \<noteq> s" using False n(4) by (cases m) auto
    qed
    with False n show ?thesis by simp
  qed
qed

text \<open>
  C7, as the code has it.  \<open>column(key)\<close> with a string key that is no column header
  fails with \<open>KeyError(key)\<close>; a string key that is a header stands for the position of
  its first occurrence; a bool key stands for the integer 0 or 1; a key that is neither a
  string nor an integer fails with \<open>TypeError(key)\<close>.  With an integer key \<open>k\<close>, read as
  a Python index (a negative one counts from the end of the row), it yields \<open>row[k]\<close> row
  by row, from the first row on, up to the first row for which \<open>k\<close> is out of range, and
  fails there with IndexError; when \<open>k\<close> is in range for every row it yields the whole
  column and ends normally.  So a worksheet with no rows yields nothing and does not fail,
  whatever the integer.
\<close>

theorem column_cases:
  "(s \<notin> set (column_headers fstr ws) \<longrightarrow>
      column fstr ws (VStr s) = ([], Some (KeyError (VStr s)))) \<and>
   (s \<in> set (column_headers fstr ws) \<longrightarrow>
      (\<exists>n. n < length (column_headers fstr ws) \<and> column_headers fstr ws ! n = s \<and>
           (\<forall>m<n. column_headers fstr ws ! m \<noteq> s) \<and>
           column fstr ws (VStr s) = column fstr ws (VInt (int n)))) \<and>
   column fstr ws (VInt k) =
     (map (item k) (takeWhile (index_ok k) (data ws)),
      if list_all (index_ok k) (data ws) then None else Some IndexError) \<and>
   column fstr ws (VBool b) = column fstr ws (VInt (if b then 1 else 0)) \<and>
   (as_int key = None \<and> (\<forall>t. key \<noteq> VStr t) \<longrightarrow>
      column fstr ws key = ([], Some (TypeError key)))"
proof (intro conjI impI)
  assume "s \<notin> set (column_headers fstr ws)"
  then have "tuple_index (column_headers fstr ws) s = Inl ValueError"
    by (rule tuple_index_absent)
  then show "column fstr ws (VStr s) = ([], Some (KeyError (VStr s)))"
    by (simp add: column_def column_key_def)
next
  assume "s \<in> set (column_headers fstr ws)"
  then obtain n where n: "tuple_index (column_headers fstr ws) s = Inr n"
    "n < length (column_headers fstr ws)" "column_headers fstr ws ! n = s"
    "\<forall>m<n. column_headers fstr ws ! m \<noteq> s"
    using tuple_index_present by blast
  from n(1) have "column fstr ws (VStr s) = column fstr ws (VInt (int n))"
    by (simp add: column_def column_key_def)
  with n(2-4) show "\<exists>n. n < length (column_headers fstr ws) \<and> column_headers fstr ws ! n = s \<and>
           (\<forall>m<n. column_headers fstr ws ! m \<noteq> s) \<and>
           column fstr ws (VStr s) = column fstr ws (VInt (int n))"
    by blast
next
  show "column fstr ws (VInt k) =
     (map (item k) (takeWhile (index_ok k) (data ws)),
      if list_all (index_ok k) (data ws) then None else Some IndexError)"
    by (simp add: column_def column_key_def column_rows_eq)
next
  show "column fstr ws (VBool b) = column fstr ws (VInt (if b then 1 else 0))"
    by (simp add: column_def column_key_def)
next
  assume "as_int key = None \<and> (\<forall>t. key \<noteq> VStr t)"
  then show "column fstr ws key = ([], Some (TypeError key))"
    by (cases key) (simp_all add: column_def column_key_def)
qed

text \<open>
  C7 as stated fails: the worksheet with no rows has no column (\<open>dim()\<close> is (0, 0)), so
  5 is no valid column index of it, and yet \<open>column(5)\<close> ends normally, having yielded
  nothing.
\<close>

theorem column_empty_counterexample:
  "dim \<lparr>data = [], name = ''sheet1''\<rparr> = Inr (0, 0) \<and>
   column no_floats \<lparr>data = [], name = ''sheet1''\<rparr> (VInt 5) = ([], None)"
  by (simp add: dim_def ncol_def column_def column_key_def)


theorem column_cases_witness:
  "column no_floats
     \<lparr>data = [[Cell (VStr ''A''), Cell (VStr ''B''), Cell (VStr ''C'')],
              [Cell (VInt 1), Cell (VInt 2), Cell (VInt 3)]], name = ''sheet1''\<rparr> (VStr ''Z'')
     = ([], Some (KeyError (VStr ''Z''))) \<and>
   column no_floats
     \<lparr>data = [[Cell (VStr ''A''), Cell (VStr ''B''), Cell (VStr ''C'')],
              [Cell (VInt 1), Cell (VInt 2), Cell (VInt 3)]], name = ''sheet1''\<rparr> (VStr ''B'')
     = ([Cell (VStr ''B''), Cell (VInt 2)], None) \<and>
   column no_floats
     \<lparr>data = [[Cell (VStr ''A''), Cell (VStr ''B''), Cell (VStr ''C'')],
              [Cell (VInt 1), Cell (VInt 2), Cell (VInt 3)]], name = ''sheet1''\<rparr> (VInt 5)
     = ([], Some IndexError) \<and>
   column no_floats
     \<lparr>data = [[Cell (VStr ''A''), Cell (VStr ''B''), Cell (VStr ''C'')],
              [Cell (VInt 1), Cell (VInt 2), Cell (VInt 3)]], name = ''sheet1''\<rparr> (VInt (- 1))
     = ([Cell (VStr ''C''), Cell (VInt 3)], None) \<and>
   column no_floats
     \<lparr>data = [[Cell (VStr ''A''), Cell (VStr ''B''), Cell (VStr ''C'')],
              [Cell (VInt 1), Cell (VInt 2), Cell (VInt 3)]], name = ''sheet1''\<rparr> VNone
     = ([], Some (TypeError VNone))"
proof -
  let ?ws = "\<lparr>data = [[Cell (VStr ''A''), Cell (VStr ''B''), Cell (VStr ''C'')],
              [Cell (VInt 1), Cell (VInt 2), Cell (VInt 3)]], name = ''sheet1''\<rparr>"
  have hs: "column_headers no_floats ?ws = [''A'', ''B'', ''C'']"
    by (simp add: column_headers_def cell_str_def Cell_def)
  have k1: "column no_floats ?ws (VInt 1) = ([Cell (VStr ''B''), Cell (VInt 2)], None)"
    using column_cases [of "''B''" no_floats ?ws 1 True VNone]
    by (simp add: index_ok_def item_def)
  have z: "column no_floats ?ws (VStr ''Z'') = ([], Some (KeyError (VStr ''Z'')))"
    using column_cases [of "''Z''" no_floats ?ws 0 True VNone] by (simp add: hs)
  have mem: "''B'' \<in> set (column_headers no_floats ?ws)" by (simp add: hs)
  from column_cases [of "''B''" no_floats ?ws 0 True VNone, THEN conjunct2, THEN conjunct1,
      THEN mp, OF mem]
  obtain n where "n < length (column_headers no_floats ?ws)"
    "column_headers no_floats ?ws ! n = ''B''"
    "column no_floats ?ws (VStr ''B'') = column no_floats ?ws (VInt (int n))"
    by blast
  then have n: "n < 3" "[''A'', ''B'', ''C''] ! n = ''B''"
    "column no_floats ?ws (VStr ''B'') = column no_floats ?ws (VInt (int n))"
    unfolding hs by simp_all
  from n(1) have "n = 0 \<or> n = 1 \<or> n = 2" by arith
  with n(2) have "n = 1" by auto
  with n(3) k1 have b: "column no_floats ?ws (VStr ''B'') = ([Cell (VStr ''B''), Cell (VInt 2)], None)"
    by simp
  have k5: "column no_floats ?ws (VInt 5) = ([], Some IndexError)"
    using column_cases [of "''B''" no_floats ?ws 5 True VNone]
    by (simp add: index_ok_def)
  have km: "column no_floats ?ws (VInt (- 1)) = ([Cell (VStr ''C''), Cell (VInt 3)], None)"
    using column_cases [of "''B''" no_floats ?ws "- 1" True VNone]
    by (simp add: index_ok_def item_def)
  have t: "column no_floats ?ws VNone = ([], Some (TypeError VNone))"
    using column_cases [of "''B''" no_floats ?ws 0 True VNone] by simp
  from z b k5 km t show ?thesis by (intro conjI)
qed

section \<open>Pairs of columns\<close>

lemma descriptor_3:
  "descriptor [h0, h1, h2] i 0 [x0, x1, x2] = Inr \<lparr>row = i, col = 0, header = h0, cell = x0\<rparr>"
  "descriptor [h0, h1, h2] i 1 [x0, x1, x2] = Inr \<lparr>row = i, col = 1, header = h1, cell = x1\<rparr>"
  "descriptor [h0, h1, h2] i 2 [x0, x1, x2] = Inr \<lparr>row = i, col = 2, header = h2, cell = x2\<rparr>"
  by (simp_all add: descriptor_def py_index_def)

lemma default_indices_3: "map int [0..<3] = [0, 1, 2]"
  by (simp add: upt_rec)

text \<open>
  C6: on a worksheet of three rows of three cells whose first row prints as A, B, C,
  \<open>column_pairs()\<close> with the default arguments takes column 0 as the base and yields,
  for every row in row order (the first row, which holds the headers, included), exactly
  the pair of the descriptors of columns A and B and then the pair of the descriptors of
  columns A and C, each descriptor holding row, col, header and cell; then it ends
  normally.
\<close>

theorem column_pairs_default:
  assumes "data ws = [[a0, b0, c0], [a1, b1, c1], [a2, b2, c2]]"
    and "map (cell_str fstr) [a0, b0, c0] = [''A'', ''B'', ''C'']"
  shows "column_pairs fstr ws None None 0 =
    ([(\<lparr>row = 0, col = 0, header = ''A'', cell = a0\<rparr>,
       \<lparr>row = 0, col = 1, header = ''B'', cell = b0\<rparr>),
      (\<lparr>row = 0, col = 0, header = ''A'', cell = a0\<rparr>,
       \<lparr>row = 0, col = 2, header = ''C'', cell = c0\<rparr>),
      (\<lparr>row = 1, col = 0, header = ''A'', cell = a1\<rparr>,
       \<lparr>row = 1, col = 1, header = ''B'', cell = b1\<rparr>),
      (\<lparr>row = 1, col = 0, header = ''A'', cell = a1\<rparr>,
       \<lparr>row = 1, col = 2, header = ''C'', cell = c1\<rparr>),
      (\<lparr>row = 2, col = 0, header = ''A'', cell = a2\<rparr>,
       \<lparr>row = 2, col = 1, header = ''B'', cell = b2\<rparr>),
      (\<lparr>row = 2, col = 0, header = ''A'', cell = a2\<rparr>,
       \<lparr>row = 2, col = 2, header = ''C'', cell = c2\<rparr>)], None)"
proof -
  have hs: "column_headers fstr ws = [''A'', ''B'', ''C'']"
    using assms by (simp add: column_headers_def)
  have n: "ncol ws = Inr 3"
    using assms(1) by (simp add: ncol_def)
  have "column_pairs fstr ws None None 0 =
          pairs_rows [''A'', ''B'', ''C''] 0 [1, 2] 0 0 (data ws)"
    by (simp add: column_pairs_def hs n default_indices_3)
  also have "\<dots> = ([(\<lparr>row = 0, col = 0, header = ''A'', cell = a0\<rparr>,
       \<lparr>row = 0, col = 1, header = ''B'', cell = b0\<rparr>),
      (\<lparr>row = 0, col = 0, header = ''A'', cell = a0\<rparr>,
       \<lparr>row = 0, col = 2, header = ''C'', cell = c0\<rparr>),
      (\<lparr>row = 1, col = 0, header = ''A'', cell = a1\<rparr>,
       \<lparr>row = 1, col = 1, header = ''B'', cell = b1\<rparr>),
      (\<lparr>row = 1, col = 0, header = ''A'', cell = a1\<rparr>,
       \<lparr>row = 1, col = 2, header = ''C'', cell = c1\<rparr>),
      (\<lparr>row = 2, col = 0, header = ''A'', cell = a2\<rparr>,
       \<lparr>row = 2, col = 1, header = ''B'', cell = b2\<rparr>),
      (\<lparr>row = 2, col = 0, header = ''A'', cell = a2\<rparr>,
       \<lparr>row = 2, col = 2, header = ''C'', cell = c2\<rparr>)], None)"
    by (simp add: assms(1) descriptor_3)
  finally show ?thesis .
qed

theorem column_pairs_default_witness:
  "column_pairs no_floats
     \<lparr>data = [[Cell (VStr ''A''), Cell (VStr ''B''), Cell (VStr ''C'')],
              [Cell (VInt 1), Cell (VInt 2), Cell (VInt 3)],
              [Cell (VInt 4), Cell VNone, Cell (VInt 6)]], name = ''sheet1''\<rparr> None None 0 =
    ([(\<lparr>row = 0, col = 0, header = ''A'', cell = Cell (VStr ''A'')\<rparr>,
       \<lparr>row = 0, col = 1, header = ''B'', cell = Cell (VStr ''B'')\<rparr>),
      (\<lparr>row = 0, col = 0, header = ''A'', cell = Cell (VStr ''A'')\<rparr>,
       \<lparr>row = 0, col = 2, header = ''C'', cell = Cell (VStr ''C'')\<rparr>),
      (\<lparr>row = 1, col = 0, header = ''A'', cell = Cell (VInt 1)\<rparr>,
       \<lparr>row = 1, col = 1, header = ''B'', cell = Cell (VInt 2)\<rparr>),
      (\<lparr>row = 1, col = 0, header = ''A'', cell = Cell (VInt 1)\<rparr>,
       \<lparr>row = 1, col = 2, header = ''C'', cell = Cell (VInt 3)\<rparr>),
      (\<lparr>row = 2, col = 0, header = ''A'', cell = Cell (VInt 4)\<rparr>,
       \<lparr>row = 2, col = 1, header = ''B'', cell = Cell VNone\<rparr>),
      (\<lparr>row = 2, col = 0, header = ''A'', cell = Cell (VInt 4)\<rparr>,
       \<lparr>row = 2, col = 2, header = ''C'', cell = Cell (VInt 6)\<rparr>)], None)"
proof -
  have "map (cell_str no_floats) [Cell (VStr ''A''), Cell (VStr ''B''), Cell (VStr ''C'')]
          = [''A'', ''B'', ''C'']"
    by (simp add: cell_str_def Cell_def)
  then show ?thesis
    by (intro column_pairs_default) simp_all
qed

section \<open>Normalising raw cells\<close>

lemma float_to_int_trunc:
  "\<exists>t. float_to_int (Finite r) = Inr t \<and> \<bar>of_int t\<bar> \<le> \<bar>r\<bar> \<and> \<bar>r - of_int t\<bar> < 1"
proof (cases "r < 0")
  case True
  define n where "n = \<lfloor>- r\<rfloor>"
  have n: "of_int n \<le> - r" "- r < of_int n + 1" unfolding n_def by linarith+
  have "0 \<le> n" unfolding n_def using True by simp
  then have n0: "(0::rat) \<le> of_int n" by simp
  have "float_to_int (Finite r) = Inr (- n)" using True by (simp add: n_def)
  moreover have "\<bar>of_int (- n)\<bar> \<le> \<bar>r\<bar>" using n n0 True by simp
  moreover have "\<bar>r - of_int (- n)\<bar> < 1" using n n0 True by simp
  ultimately show ?thesis by blast
next
  case False
  define n where "n = \<lfloor>r\<rfloor>"
  have n: "of_int n \<le> r" "r < of_int n + 1" unfolding n_def by linarith+
  have "0 \<le> n" unfolding n_def using False by simp
  then have n0: "(0::rat) \<le> of_int n" by simp
  have "float_to_int (Finite r) = Inr n" using False by (simp add: n_def)
  moreover have "\<bar>of_int n\<bar> \<le> \<bar>r\<bar>" using n n0 False by simp
  moreover have "\<bar>r - of_int n\<bar> < 1" using n n0 False by simp
  ultimately show ?thesis by blast
qed

text \<open>
  C1, as the code has it.  For a numeric cell whose raw float is finite, \<open>int\<close> gives
  the truncation \<open>t\<close> of the float towards zero (the integer with \<open>|t| \<le> |r|\<close> and
  \<open>|r - t| < 1\<close>), and the value is the integer \<open>t\<close> when \<open>t\<close> equals the float and
  the float itself otherwise.  For a NaN or an infinity \<open>int\<close> raises, and so does
  \<open>cell_value\<close>: ValueError for a NaN, OverflowError for an infinity.
\<close>

theorem cell_value_number:
  "(\<exists>t. float_to_int (Finite r) = Inr t \<and> \<bar>of_int t\<bar> \<le> \<bar>r\<bar> \<and> \<bar>r - of_int t\<bar> < 1 \<and>
        cell_value f (XL_CELL_NUMBER (Finite r)) dm st =
          Inr (if of_int t = r then VInt t else VFloat (Finite r))) \<and>
   cell_value f (XL_CELL_NUMBER NaN) dm st = Inl ValueError \<and>
   cell_value f (XL_CELL_NUMBER PosInf) dm st = Inl OverflowError \<and>
   cell_value f (XL_CELL_NUMBER NegInf) dm st = Inl OverflowError"
proof -
  obtain t where t: "float_to_int (Finite r) = Inr t" "\<bar>of_int t\<bar> \<le> \<bar>r\<bar>" "\<bar>r - of_int t\<bar> < 1"
    using float_to_int_trunc by blast
  from t(1) have "cell_value f (XL_CELL_NUMBER (Finite r)) dm st =
          Inr (if of_int t = r then VInt t else VFloat (Finite r))"
    by simp
  with t show ?thesis by auto
qed

theorem cell_value_number_witness:
  "cell_value xldate_sample (XL_CELL_NUMBER (Finite 3)) None True = Inr (VInt 3) \<and>
   cell_value xldate_sample (XL_CELL_NUMBER (Finite (- 5 / 2))) None True
     = Inr (VFloat (Finite (- 5 / 2)))"
proof
  from cell_value_number [of 3 xldate_sample None True]
  obtain t where "float_to_int (Finite 3) = Inr t"
    "cell_value xldate_sample (XL_CELL_NUMBER (Finite 3)) None True =
          Inr (if of_int t = (3::rat) then VInt t else VFloat (Finite 3))"
    by blast
  then show "cell_value xldate_sample (XL_CELL_NUMBER (Finite 3)) None True = Inr (VInt 3)"
    by auto
next
  from cell_value_number [of "- 5 / 2" xldate_sample None True]
  obtain t where "float_to_int (Finite (- 5 / 2)) = Inr t"
    "cell_value xldate_sample (XL_CELL_NUMBER (Finite (- 5 / 2))) None True =
          Inr (if of_int t = (- 5 / 2 :: rat) then VInt t else VFloat (Finite (- 5 / 2)))"
    by blast
  moreover have "\<lfloor>(5::rat) / 2\<rfloor> = 2" by (rule floor_unique) simp_all
  ultimately show "cell_value xldate_sample (XL_CELL_NUMBER (Finite (- 5 / 2))) None True
     = Inr (VFloat (Finite (- 5 / 2)))"
    by auto
qed

text \<open>
  C1 as stated fails: for the numeric cell holding a NaN no value is returned, neither
  an integer nor the float; \<open>int(cell.value)\<close> raises ValueError.
\<close>

theorem cell_value_nan_counterexample:
  "cell_value xldate_sample (XL_CELL_NUMBER NaN) None True = Inl ValueError"
  by simp

lemma py_format_error_cell: "py_format error_cell_template args = Inr error_cell_template"
  by (simp add: error_cell_template_def)

lemma py_format_unhandled:
  "py_format unhandled_template [a, b] =
     Inr (''Unhandled cell exception.'' @ [CHR 0x0A] @ ''Type: '' @ a @ [CHR 0x0A] @
          ''Value: '' @ b)"
  by (simp add: unhandled_template_def)

text \<open>
  C3: what the code does.  For a cell with the error tag \<open>cell_value\<close> raises a
  TypeError whose message is the text of the template itself: the template has no
  replacement field, so \<open>format\<close> drops the tag and the value it is given, and the
  message is the same for every error cell.  For a cell with any other unhandled tag it
  raises a TypeError as well, and that message does hold the tag and the value.
\<close>

theorem cell_value_error_fixed_message:
  "cell_value f (XL_CELL_ERROR c) dm st = Inl (TypeError (VStr error_cell_template)) \<and>
   cell_value f (XL_CELL_OTHER n v) dm st =
     Inl (TypeError (VStr (''Unhandled cell exception.'' @ [CHR 0x0A] @ ''Type: '' @
            str_int (6 + int n) @ [CHR 0x0A] @ ''Value: '' @ v)))"
  by (simp add: py_format_error_cell py_format_unhandled)

theorem cell_value_error_fixed_message_witness:
  "cell_value xldate_sample (XL_CELL_ERROR 42) None True
     = Inl (TypeError (VStr error_cell_template)) \<and>
   cell_value xldate_sample (XL_CELL_ERROR 7) None True
     = Inl (TypeError (VStr error_cell_template)) \<and>
   cell_value xldate_sample (XL_CELL_OTHER 0 []) None True
     = Inl (TypeError (VStr (''Unhandled cell exception.'' @ [CHR 0x0A] @ ''Type: 6'' @
              [CHR 0x0A] @ ''Value: '')))"
  using cell_value_error_fixed_message [of xldate_sample 42 None True 0 "[]"]
    cell_value_error_fixed_message [of xldate_sample 7 None True 0 "[]"]
  by (simp add: str_int_def str_nat_digit)

text \<open>
  C2, as the code has it.  When the decoder returns the tuple (year, month, day, hour,
  minute, second) for the raw date, with components the \<open>datetime\<close> constructors accept,
  the tests are made in order: the value is a time when the date part is all zero,
  whether or not the time part is all zero too; it is a date when the date part is not
  all zero and the time part is; it is a date-and-time when neither part is all zero.
  These three conditions exclude one another and cover every tuple.
\<close>

theorem cell_value_date_cases:
  assumes "xldate_as_tuple x (case datemode of None \<Rightarrow> 1 | Some m \<Rightarrow> m)
             = Inr (y, mo, d, h, mi, s)"
    and "time_ok h mi s"
    and "(y, mo, d) \<noteq> (0, 0, 0) \<longrightarrow> date_ok y mo d"
  shows "((y, mo, d) = (0, 0, 0) \<longrightarrow>
            cell_value xldate_as_tuple (XL_CELL_DATE x) datemode stripstr
              = Inr (VTime h mi s)) \<and>
         ((y, mo, d) \<noteq> (0, 0, 0) \<and> (h, mi, s) = (0, 0, 0) \<longrightarrow>
            cell_value xldate_as_tuple (XL_CELL_DATE x) datemode stripstr
              = Inr (VDate y mo d)) \<and>
         ((y, mo, d) \<noteq> (0, 0, 0) \<and> (h, mi, s) \<noteq> (0, 0, 0) \<longrightarrow>
            cell_value xldate_as_tuple (XL_CELL_DATE x) datemode stripstr
              = Inr (VDateTime y mo d h mi s))"
  using assms
  by (auto simp: Let_def datetime_time_def datetime_date_def datetime_datetime_def)

theorem cell_value_date_cases_witness:
  "cell_value xldate_sample (XL_CELL_DATE (Finite (1 / 2))) None True = Inr (VTime 12 0 0) \<and>
   cell_value xldate_sample (XL_CELL_DATE (Finite 0)) None True = Inr (VTime 0 0 0) \<and>
   cell_value xldate_sample (XL_CELL_DATE (Finite 1)) None True = Inr (VDate 1904 1 2) \<and>
   cell_value xldate_sample (XL_CELL_DATE (Finite (3 / 2))) (Some 1) True
     = Inr (VDateTime 1904 1 2 12 0 0)"
proof (intro conjI)
  have ok: "time_ok 12 0 0" "time_ok 0 0 0" "date_ok 1904 1 2"
    by (simp_all add: time_ok_def date_ok_def days_in_month_def)
  show "cell_value xldate_sample (XL_CELL_DATE (Finite (1 / 2))) None True = Inr (VTime 12 0 0)"
    using cell_value_date_cases [of xldate_sample "Finite (1 / 2)" None 0 0 0 12 0 0 True] ok
    by (simp add: xldate_sample_def)
  show "cell_value xldate_sample (XL_CELL_DATE (Finite 0)) None True = Inr (VTime 0 0 0)"
    using cell_value_date_cases [of xldate_sample "Finite 0" None 0 0 0 0 0 0 True] ok
    by (simp add: xldate_sample_def)
  show "cell_value xldate_sample (XL_CELL_DATE (Finite 1)) None True = Inr (VDate 1904 1 2)"
    using cell_value_date_cases [of xldate_sample "Finite 1" None 1904 1 2 0 0 0 True] ok
    by (simp add: xldate_sample_def)
  show "cell_value xldate_sample (XL_CELL_DATE (Finite (3 / 2))) (Some 1) True
     = Inr (VDateTime 1904 1 2 12 0 0)"
    using cell_value_date_cases [of xldate_sample "Finite (3 / 2)" "Some 1" 1904 1 2 12 0 0 True] ok
    by (simp add: xldate_sample_def)
qed

text \<open>
  C2 as stated fails: the raw date 0.0 decodes to the all-zero tuple, whose time part is
  all zero, and the value is not a date but the time 00:00:00.  The conditions "date part
  all zero" and "time part all zero" overlap there.
\<close>

theorem cell_value_date_zero_counterexample:
  "xldate_sample (Finite 0) 1 = Inr (0, 0, 0, 0, 0, 0) \<and>
   cell_value xldate_sample (XL_CELL_DATE (Finite 0)) None True = Inr (VTime 0 0 0)"
  by (simp add: xldate_sample_def datetime_time_def time_ok_def)

section \<open>The CSV export read back\<close>

lemma process_chars_append:
  "process_chars p (xs @ ys) =
     (case process_chars p xs of Inl e \<Rightarrow> Inl e | Inr q \<Rightarrow> process_chars q ys)"
  by (induction xs arbitrary: p) (auto split: sum.splits)




lemma process_line_snoc:
  "process_chars p cur = Inr q \<Longrightarrow>
   process_line p (cur @ l) =
     (case process_chars q l of Inl e \<Rightarrow> Inl e | Inr r \<Rightarrow> parse_process_char r EOL)"
  by (simp add: process_line_def process_chars_append)
















subsection \<open>Fields within the limit are read back\<close>


















subsection \<open>A field beyond the limit stops the reader\<close>






subsection \<open>The whole export\<close>









end
